theory Spec2Isabelle
  imports Complex_Main
begin

section \<open>Common data model\<close>

text \<open>
  The Python exceptions that the modelled code can raise.
\<close>

datatype py_error = ValueError | AttributeError | IndexError

text \<open>
  A two-dimensional numpy array: its shape and its rows. A well-formed array has
  \<open>nrows\<close> rows of \<open>ncols\<close> cells each; the shape is kept apart from the rows because
  numpy keeps the column count of an array that has no rows.
\<close>

record 'a ndarray =
  nrows :: nat
  ncols :: nat
  rows :: "'a list list"

definition wf_array :: "'a ndarray \<Rightarrow> bool" where
  "wf_array a = (length (rows a) = nrows a \<and> list_all (\<lambda>row. length row = ncols a) (rows a))"

definition cell :: "'a ndarray \<Rightarrow> nat \<Rightarrow> nat \<Rightarrow> 'a" where
  "cell a j i = rows a ! j ! i"

definition all_cells :: "('a \<Rightarrow> bool) \<Rightarrow> 'a ndarray \<Rightarrow> bool" where
  "all_cells P a = list_all (list_all P) (rows a)"

text \<open>\<open>np.full((h, w), v)\<close> and \<open>np.zeros((h, w))\<close>.\<close>

definition np_full :: "nat \<Rightarrow> nat \<Rightarrow> 'a \<Rightarrow> 'a ndarray" where
  "np_full h w v = \<lparr>nrows = h, ncols = w, rows = replicate h (replicate w v)\<rparr>"

text \<open>
  Boolean-mask assignment \<open>a[mask] = v\<close>. The mask is an array of the same shape as
  \<open>a\<close>, given here by its value at row \<open>j\<close>, column \<open>i\<close>. An expression such as
  \<open>labels == 4\<close> inside the mask is evaluated on the array as it is before the assignment.
\<close>

definition mask_assign :: "(nat \<Rightarrow> nat \<Rightarrow> bool) \<Rightarrow> 'a \<Rightarrow> 'a ndarray \<Rightarrow> 'a ndarray" where
  "mask_assign m v a =
     a\<lparr>rows := map (\<lambda>(j, row). map (\<lambda>(i, c). if m j i then v else c) (enumerate 0 row))
                   (enumerate 0 (rows a))\<rparr>"

text \<open>
  A float64 value is modelled as a real number, with \<open>None\<close> for NaN (the only
  non-finite value the grid code produces: \<open>0 / 0\<close> for a grid of size 1). Rounding of
  floating-point arithmetic is not modelled. Every comparison with NaN is false.
\<close>

type_synonym npfloat = "real option"

definition fgt :: "npfloat \<Rightarrow> real \<Rightarrow> bool" where
  "fgt a b = (case a of None \<Rightarrow> False | Some x \<Rightarrow> x > b)"

definition flt :: "npfloat \<Rightarrow> real \<Rightarrow> bool" where
  "flt a b = (case a of None \<Rightarrow> False | Some x \<Rightarrow> x < b)"

definition fge :: "npfloat \<Rightarrow> real \<Rightarrow> bool" where
  "fge a b = (case a of None \<Rightarrow> False | Some x \<Rightarrow> x \<ge> b)"

text \<open>\<open>np.abs(a - b)\<close> and \<open>np.hypot(a, b)\<close>; NaN propagates.\<close>

definition abs_diff :: "npfloat \<Rightarrow> real \<Rightarrow> npfloat" where
  "abs_diff a b = map_option (\<lambda>x. \<bar>x - b\<bar>) a"

definition np_hypot :: "npfloat \<Rightarrow> npfloat \<Rightarrow> npfloat" where
  "np_hypot a b =
     (case a of None \<Rightarrow> None
      | Some x \<Rightarrow> (case b of None \<Rightarrow> None | Some y \<Rightarrow> Some (sqrt (x\<^sup>2 + y\<^sup>2))))"

section \<open>dataset.py: noise helpers\<close>

text \<open>
  \<open>_pseudo_rand\<close> and \<open>_sine_noise\<close> are elementwise functions of the grid
  coordinates and the seed, built from floating-point \<open>sin\<close>, \<open>cos\<close> and the phases
  drawn from \<open>np.random.default_rng(seed)\<close>. Their values are not computed here: the
  two helpers are parameters of the generators, each a function of exactly the
  arguments the source passes (one cell at a time).
\<close>

record noise_env =
  sine_noise :: "npfloat \<Rightarrow> npfloat \<Rightarrow> (real \<times> real \<times> real) list \<Rightarrow> int \<Rightarrow> npfloat"
  pseudo_rand :: "int \<Rightarrow> int \<Rightarrow> int \<Rightarrow> npfloat"

text \<open>
  \<open>ix / (size - 1)\<close> at index \<open>i\<close>, for \<open>ix = np.arange(size)\<close>. For \<open>size = 1\<close>
  numpy computes \<open>0 / 0\<close>, which is NaN (with a warning, not an exception).
\<close>

definition norm_coord :: "int \<Rightarrow> nat \<Rightarrow> npfloat" where
  "norm_coord gsize i = (if gsize = 1 then None else Some (real i / real_of_int (gsize - 1)))"

text \<open>
  \<open>X, Z = np.meshgrid(ix / (size - 1), iz / (size - 1))\<close>: at row \<open>j\<close>, column
  \<open>i\<close>, \<open>X\<close> holds the normalised column index and \<open>Z\<close> the normalised row index.
\<close>

definition mesh_X :: "int \<Rightarrow> nat \<Rightarrow> nat \<Rightarrow> npfloat" where
  "mesh_X gsize j i = norm_coord gsize i"

definition mesh_Z :: "int \<Rightarrow> nat \<Rightarrow> nat \<Rightarrow> npfloat" where
  "mesh_Z gsize j i = norm_coord gsize j"

section \<open>dataset.py: class schema\<close>

record terrain_class =
  tc_id :: nat
  tc_name :: string
  tc_rgb :: "nat \<times> nat \<times> nat"
  tc_cost :: real
  tc_traversable :: bool

definition TERRAIN_CLASSES :: "terrain_class list" where
  "TERRAIN_CLASSES =
     [\<lparr>tc_id = 0, tc_name = ''Rock'', tc_rgb = (139, 115, 85), tc_cost = 0.9, tc_traversable = False\<rparr>,
      \<lparr>tc_id = 1, tc_name = ''Bush'', tc_rgb = (74, 112, 35), tc_cost = 0.75, tc_traversable = False\<rparr>,
      \<lparr>tc_id = 2, tc_name = ''Log'', tc_rgb = (139, 69, 19), tc_cost = 0.85, tc_traversable = False\<rparr>,
      \<lparr>tc_id = 3, tc_name = ''Sand'', tc_rgb = (222, 184, 135), tc_cost = 0.2, tc_traversable = True\<rparr>,
      \<lparr>tc_id = 4, tc_name = ''Landscape'', tc_rgb = (196, 168, 98), tc_cost = 0.15, tc_traversable = True\<rparr>,
      \<lparr>tc_id = 5, tc_name = ''Clear'', tc_rgb = (200, 210, 220), tc_cost = 0.1, tc_traversable = True\<rparr>,
      \<lparr>tc_id = 6, tc_name = ''Gravel'', tc_rgb = (169, 169, 169), tc_cost = 0.35, tc_traversable = True\<rparr>,
      \<lparr>tc_id = 7, tc_name = ''Water'', tc_rgb = (30, 80, 200), tc_cost = 0.95, tc_traversable = False\<rparr>,
      \<lparr>tc_id = 8, tc_name = ''Vegetation'', tc_rgb = (34, 139, 34), tc_cost = 0.5, tc_traversable = True\<rparr>,
      \<lparr>tc_id = 9, tc_name = ''Obstacle'', tc_rgb = (220, 20, 60), tc_cost = 1.0, tc_traversable = False\<rparr>]"

definition registry_ids :: "nat list" where
  "registry_ids = map tc_id TERRAIN_CLASSES"

section \<open>dataset.py: terrain generators\<close>

text \<open>
  In each generator, \<open>I[j, i] = i\<close> and \<open>J[j, i] = j\<close> (\<open>np.meshgrid\<close> with the
  default indexing). Class ids are stored as uint8; only the constants 0 to 9 are
  ever written and no arithmetic is done on them, so a cell is a natural number.
  \<open>np.random.default_rng\<close> raises ValueError for a negative seed and \<open>np.full\<close>
  raises ValueError for a negative dimension; these are the only failures.
\<close>

definition gen_desert :: "noise_env \<Rightarrow> int \<Rightarrow> int \<Rightarrow> py_error + nat ndarray" where
  "gen_desert env gsize seed =
     (if seed < 0 \<or> gsize < 0 then Inl ValueError
      else
        let X = mesh_X gsize;
            Z = mesh_Z gsize;
            wave = (\<lambda>j i. sine_noise env (X j i) (Z j i)
                      [(3, 2.5, 0.4), (9, 7, 0.2), (16, 12, 0.08)] seed);
            r = (\<lambda>j i. pseudo_rand env (int i + seed) (int j + seed * 2) seed);
            labels = np_full (nat gsize) (nat gsize) (3::nat);
            labels = mask_assign (\<lambda>j i. fgt (wave j i) 0.45) 0 labels;
            labels = mask_assign (\<lambda>j i. fgt (wave j i) 0.30 \<and> fgt (r j i) 0.78) 1 labels;
            labels = mask_assign (\<lambda>j i. fgt (wave j i) 0.22 \<and> fgt (r j i) 0.90) 2 labels;
            labels = mask_assign (\<lambda>j i. flt (wave j i) 0.0) 4 labels;
            labels = mask_assign (\<lambda>j i. fgt (r j i) 0.96) 9 labels
        in Inr labels)"

definition gen_rocky :: "noise_env \<Rightarrow> int \<Rightarrow> int \<Rightarrow> py_error + nat ndarray" where
  "gen_rocky env gsize seed =
     (if seed < 0 \<or> gsize < 0 then Inl ValueError
      else
        let X = mesh_X gsize;
            Z = mesh_Z gsize;
            wave = (\<lambda>j i. sine_noise env (X j i) (Z j i)
                      [(5, 4, 0.55), (10, 8, 0.25), (20, 15, 0.1)] seed);
            r = (\<lambda>j i. pseudo_rand env (int i * 2 + seed) (int j * 3 + seed) seed);
            dist = (\<lambda>j i. abs_diff (X j i) 0.5);
            labels = np_full (nat gsize) (nat gsize) (0::nat);
            labels = mask_assign (\<lambda>j i. fgt (wave j i) 0.38) 9 labels;
            labels = mask_assign (\<lambda>j i. flt (wave j i) (- 0.2)) 8 labels;
            labels = mask_assign (\<lambda>j i. flt (dist j i) 0.12) 6 labels;
            labels = mask_assign (\<lambda>j i. flt (dist j i) 0.07 \<and> flt (r j i) 0.55) 3 labels;
            labels = mask_assign (\<lambda>j i. flt (dist j i) 0.12 \<and> fgt (r j i) 0.86) 2 labels;
            labels = mask_assign (\<lambda>j i. fgt (dist j i) 0.35 \<and> fgt (r j i) 0.88) 1 labels
        in Inr labels)"

text \<open>
  \<open>gen_mixed\<close> in three stages: the zone rules (source lines 104 to 127), the gravel
  paths (lines 130 and 131) and the sand strips (line 134). The last two read the
  array they are about to change.
\<close>

definition mixed_zones ::
  "(nat \<Rightarrow> nat \<Rightarrow> npfloat) \<Rightarrow> (nat \<Rightarrow> nat \<Rightarrow> npfloat) \<Rightarrow> (nat \<Rightarrow> nat \<Rightarrow> npfloat) \<Rightarrow>
   (nat \<Rightarrow> nat \<Rightarrow> npfloat) \<Rightarrow> nat \<Rightarrow> nat ndarray" where
  "mixed_zones X Z wave r n =
     (let labels = np_full n n (4::nat);
          dist_water = (\<lambda>j i. np_hypot (map_option (\<lambda>x. x - 0.82) (X j i))
                                         (map_option (\<lambda>z. z - 0.82) (Z j i)));
          labels = mask_assign (\<lambda>j i. flt (dist_water j i) 0.18) 7 labels;
          labels = mask_assign (\<lambda>j i. fge (dist_water j i) 0.18 \<and> flt (dist_water j i) 0.27) 6 labels;
          labels = mask_assign (\<lambda>j i. fgt (X j i) 0.65 \<and> flt (Z j i) 0.35 \<and> fgt (wave j i) 0.20) 0 labels;
          labels = mask_assign (\<lambda>j i. fgt (X j i) 0.65 \<and> flt (Z j i) 0.35 \<and> fgt (wave j i) 0.35) 9 labels;
          labels = mask_assign (\<lambda>j i. flt (X j i) 0.35 \<and> flt (Z j i) 0.35) 8 labels;
          labels = mask_assign (\<lambda>j i. flt (X j i) 0.35 \<and> flt (Z j i) 0.35 \<and> fgt (r j i) 0.70) 1 labels;
          log_diag = (\<lambda>j i. case X j i of None \<Rightarrow> False
                       | Some x \<Rightarrow> (case Z j i of None \<Rightarrow> False | Some z \<Rightarrow> \<bar>x - z\<bar> < 0.04));
          labels = mask_assign (\<lambda>j i. log_diag j i \<and> fgt (r j i) 0.80) 2 labels;
          labels = mask_assign (\<lambda>j i. flt (abs_diff (X j i) 0.5) 0.1 \<and> flt (abs_diff (Z j i) 0.5) 0.1
                                        \<and> fgt (r j i) 0.65) 5 labels;
          labels = mask_assign (\<lambda>j i. fgt (r j i) 0.97) 9 labels
      in labels)"

definition gravel_path_rule ::
  "(nat \<Rightarrow> nat \<Rightarrow> npfloat) \<Rightarrow> (nat \<Rightarrow> nat \<Rightarrow> npfloat) \<Rightarrow> nat ndarray \<Rightarrow> nat ndarray" where
  "gravel_path_rule X Z labels =
     (let gravel_path = (\<lambda>j i. flt (abs_diff (X j i) 0.5) 0.06 \<or> flt (abs_diff (Z j i) 0.5) 0.06)
      in mask_assign (\<lambda>j i. gravel_path j i \<and> cell labels j i = 4) 6 labels)"

definition sand_strip_rule ::
  "(nat \<Rightarrow> nat \<Rightarrow> npfloat) \<Rightarrow> (nat \<Rightarrow> nat \<Rightarrow> npfloat) \<Rightarrow> nat ndarray \<Rightarrow> nat ndarray" where
  "sand_strip_rule wave r labels =
     mask_assign (\<lambda>j i. fgt (wave j i) 0.15 \<and> cell labels j i = 4 \<and> fgt (r j i) 0.6) 3 labels"

definition mixed_wave :: "noise_env \<Rightarrow> int \<Rightarrow> int \<Rightarrow> nat \<Rightarrow> nat \<Rightarrow> npfloat" where
  "mixed_wave env gsize seed j i =
     sine_noise env (mesh_X gsize j i) (mesh_Z gsize j i)
       [(4, 3, 0.35), (10, 8, 0.15), (18, 14, 0.06)] seed"

definition mixed_rand :: "noise_env \<Rightarrow> int \<Rightarrow> nat \<Rightarrow> nat \<Rightarrow> npfloat" where
  "mixed_rand env seed j i = pseudo_rand env (int i + seed * 3) (int j + seed) seed"

definition gen_mixed :: "noise_env \<Rightarrow> int \<Rightarrow> int \<Rightarrow> py_error + nat ndarray" where
  "gen_mixed env gsize seed =
     (if seed < 0 \<or> gsize < 0 then Inl ValueError
      else
        let X = mesh_X gsize;
            Z = mesh_Z gsize;
            wave = mixed_wave env gsize seed;
            r = mixed_rand env seed;
            labels = mixed_zones X Z wave r (nat gsize);
            labels = gravel_path_rule X Z labels;
            labels = sand_strip_rule wave r labels
        in Inr labels)"

definition gen_random :: "noise_env \<Rightarrow> int \<Rightarrow> int \<Rightarrow> py_error + nat ndarray" where
  "gen_random env gsize seed =
     (let style = seed mod 3
      in if style = 0 then gen_desert env gsize seed
         else if style = 1 then gen_rocky env gsize seed
         else gen_mixed env gsize seed)"

text \<open>
  A class grid of side \<open>n\<close> whose cells are all ids of the registry.
\<close>

definition valid_class_grid :: "nat \<Rightarrow> nat ndarray \<Rightarrow> bool" where
  "valid_class_grid n g =
     (nrows g = n \<and> ncols g = n \<and> wf_array g
      \<and> all_cells (\<lambda>c. c \<in> set registry_ids \<and> c \<le> 9) g)"

section \<open>dataset.py: augmentation\<close>

text \<open>
  \<open>np.fliplr\<close>, \<open>np.flipud\<close>, the transpose and \<open>np.rot90(m, k)\<close>, the last as numpy
  composes it from flips and the transpose, with \<open>k\<close> taken modulo 4.
\<close>

definition np_fliplr :: "'a ndarray \<Rightarrow> 'a ndarray" where
  "np_fliplr a = a\<lparr>rows := map rev (rows a)\<rparr>"

definition np_flipud :: "'a ndarray \<Rightarrow> 'a ndarray" where
  "np_flipud a = a\<lparr>rows := rev (rows a)\<rparr>"

definition np_transpose :: "'a ndarray \<Rightarrow> 'a ndarray" where
  "np_transpose a =
     \<lparr>nrows = ncols a, ncols = nrows a,
      rows = map (\<lambda>i. map (\<lambda>j. cell a j i) [0..<nrows a]) [0..<ncols a]\<rparr>"

definition np_rot90 :: "nat \<Rightarrow> 'a ndarray \<Rightarrow> 'a ndarray" where
  "np_rot90 k m =
     (let k = k mod 4
      in if k = 0 then m
         else if k = 2 then np_fliplr (np_flipud m)
         else if k = 1 then np_transpose (np_fliplr m)
         else np_fliplr (np_transpose m))"

text \<open>
  A PIL image is its array of pixels, \<open>nrows\<close> the height and \<open>ncols\<close> the width.
  \<open>img.transpose(FLIP_LEFT_RIGHT)\<close> and \<open>img.transpose(FLIP_TOP_BOTTOM)\<close> are the two
  flips. \<open>img.rotate(k * 90)\<close> is called without \<open>expand\<close>, so PIL returns an image of
  the size of its input: for a half turn, and for a quarter turn of a square image,
  that is the exact counter-clockwise rotation; for a quarter turn of a non-square
  image the pixels are resampled into the old frame, and their values are the
  parameter \<open>resample\<close>.
\<close>

type_synonym rgb = "nat \<times> nat \<times> nat"

definition np_build :: "nat \<Rightarrow> nat \<Rightarrow> (nat \<Rightarrow> nat \<Rightarrow> 'a) \<Rightarrow> 'a ndarray" where
  "np_build h w f = \<lparr>nrows = h, ncols = w, rows = map (\<lambda>j. map (\<lambda>i. f j i) [0..<w]) [0..<h]\<rparr>"

definition pil_rotate ::
  "(nat \<Rightarrow> rgb ndarray \<Rightarrow> nat \<Rightarrow> nat \<Rightarrow> rgb) \<Rightarrow> nat \<Rightarrow> rgb ndarray \<Rightarrow> rgb ndarray" where
  "pil_rotate resample k img =
     (if k mod 4 = 0 \<or> k mod 4 = 2 \<or> nrows img = ncols img then np_rot90 k img
      else np_build (nrows img) (ncols img) (resample k img))"

text \<open>
  The four draws of one call, in the order the source makes them: \<open>rng.random()\<close>
  twice, \<open>rng.integers(0, 4)\<close> and \<open>rng.uniform(0.85, 1.15)\<close>.
\<close>

record aug_draws =
  u_hflip :: real
  u_vflip :: real
  rot_k :: nat
  jitter_factor :: real

text \<open>\<open>np.clip(v * factor, 0, 255).astype(np.uint8)\<close> on one channel value.\<close>

definition jitter_channel :: "real \<Rightarrow> nat \<Rightarrow> nat" where
  "jitter_channel factor v = nat \<lfloor>min 255 (max 0 (real v * factor))\<rfloor>"

definition color_jitter :: "real \<Rightarrow> rgb ndarray \<Rightarrow> rgb ndarray" where
  "color_jitter factor img =
     img\<lparr>rows := map (map (\<lambda>(r, g, b). (jitter_channel factor r, jitter_channel factor g,
                                           jitter_channel factor b))) (rows img)\<rparr>"

text \<open>
  The geometric part of \<open>augment_image\<close> (flips and rotation, source lines 152 to
  163) and the whole function. The source raises nowhere and compares no shapes:
  every call returns a pair.
\<close>

definition augment_geometry ::
  "(nat \<Rightarrow> rgb ndarray \<Rightarrow> nat \<Rightarrow> nat \<Rightarrow> rgb) \<Rightarrow> rgb ndarray \<Rightarrow> 'a ndarray \<Rightarrow> aug_draws
   \<Rightarrow> rgb ndarray \<times> 'a ndarray" where
  "augment_geometry resample img label d =
     (let (img, label) = (if u_hflip d > 0.5 then (np_fliplr img, np_fliplr label) else (img, label));
          (img, label) = (if u_vflip d > 0.5 then (np_flipud img, np_flipud label) else (img, label));
          k = rot_k d
      in if k > 0 then (pil_rotate resample k img, np_rot90 k label) else (img, label))"

definition augment_image ::
  "(nat \<Rightarrow> rgb ndarray \<Rightarrow> nat \<Rightarrow> nat \<Rightarrow> rgb) \<Rightarrow> rgb ndarray \<Rightarrow> 'a ndarray \<Rightarrow> aug_draws
   \<Rightarrow> rgb ndarray \<times> 'a ndarray" where
  "augment_image resample img label d =
     (let (img, label) = augment_geometry resample img label d;
          factor = jitter_factor d
      in (color_jitter factor img, label))"

text \<open>
  An array of the same shape with a function applied to every cell: a picture in
  which the pixel at a position is a colour chosen by the class at that position.
\<close>

definition map_cells :: "('a \<Rightarrow> 'b) \<Rightarrow> 'a ndarray \<Rightarrow> 'b ndarray" where
  "map_cells f a = \<lparr>nrows = nrows a, ncols = ncols a, rows = map (map f) (rows a)\<rparr>"

text \<open>
  The flips and the rotation that the draws select, applied to one array alone.
\<close>

definition geometric_transform :: "aug_draws \<Rightarrow> 'a ndarray \<Rightarrow> 'a ndarray" where
  "geometric_transform d label =
     np_rot90 (rot_k d)
       ((if u_vflip d > 0.5 then np_flipud else id)
          ((if u_hflip d > 0.5 then np_fliplr else id) label))"

section \<open>dataset.py: renderer\<close>

text \<open>
  \<open>a[mask] = values\<close> with one value per selected cell, and the colour array that
  \<open>render_terrain\<close> builds (source lines 180 to 190) before it hands it to PIL. The
  Gaussian jitter drawn for the pixel at row \<open>j\<close>, column \<open>i\<close> while class \<open>cid\<close> is
  painted is the parameter \<open>jit cid j i\<close>. A class with an empty mask is skipped, which
  leaves the array as painting no cell does.
\<close>

definition mask_assign_each ::
  "(nat \<Rightarrow> nat \<Rightarrow> bool) \<Rightarrow> (nat \<Rightarrow> nat \<Rightarrow> 'a) \<Rightarrow> 'a ndarray \<Rightarrow> 'a ndarray" where
  "mask_assign_each m f a =
     a\<lparr>rows := map (\<lambda>(j, row). map (\<lambda>(i, c). if m j i then f j i else c) (enumerate 0 row))
                   (enumerate 0 (rows a))\<rparr>"

definition clip_uint8 :: "real \<Rightarrow> nat" where
  "clip_uint8 x = nat \<lfloor>min 255 (max 0 x)\<rfloor>"

definition paint_class ::
  "(nat \<Rightarrow> nat \<Rightarrow> nat \<Rightarrow> real \<times> real \<times> real) \<Rightarrow> nat ndarray \<Rightarrow> rgb ndarray
   \<Rightarrow> nat \<times> terrain_class \<Rightarrow> rgb ndarray" where
  "paint_class jit labels rgb ct =
     (case ct of (cid, tc) \<Rightarrow>
        (case tc_rgb tc of (br, bg, bb) \<Rightarrow>
           mask_assign_each (\<lambda>j i. cell labels j i = cid)
             (\<lambda>j i. case jit cid j i of (jr, jg, jb) \<Rightarrow>
                (clip_uint8 (real br + jr), clip_uint8 (real bg + jg), clip_uint8 (real bb + jb)))
             rgb))"

definition render_rgb ::
  "(nat \<Rightarrow> nat \<Rightarrow> nat \<Rightarrow> real \<times> real \<times> real) \<Rightarrow> nat ndarray \<Rightarrow> rgb ndarray" where
  "render_rgb jit labels =
     foldl (paint_class jit labels) (np_full (nrows labels) (ncols labels) (0, 0, 0))
       (enumerate 0 TERRAIN_CLASSES)"

section \<open>costmap.py\<close>

text \<open>
  The class-to-cost loop of \<open>generate_cost_map\<close> (source lines 27 to 34): a grid of
  zeros, then one mask assignment per class of the registry, in registry order.
\<close>

definition raw_cost_grid :: "nat ndarray \<Rightarrow> terrain_class list \<Rightarrow> real ndarray" where
  "raw_cost_grid seg_mask terrain_classes =
     foldl (\<lambda>cost_grid cls. mask_assign (\<lambda>j i. cell seg_mask j i = tc_id cls) (tc_cost cls) cost_grid)
       (np_full (nrows seg_mask) (ncols seg_mask) 0) terrain_classes"

text \<open>
  \<open>x.astype(np.uint8)\<close> on a float array truncates towards zero; the result is taken
  modulo 256. A Python \<open>int\<close> has no attribute \<open>astype\<close>: evaluating
  \<open>(255).astype(np.uint8)\<close> raises AttributeError.
\<close>

definition trunc :: "real \<Rightarrow> int" where
  "trunc x = (if x \<ge> 0 then \<lfloor>x\<rfloor> else \<lceil>x\<rceil>)"

definition astype_uint8 :: "real \<Rightarrow> nat" where
  "astype_uint8 x = nat (trunc x mod 256)"

definition int_astype_uint8 :: "int \<Rightarrow> py_error + nat" where
  "int_astype_uint8 n = Inl AttributeError"

text \<open>\<open>rgb[mask, ch] = values\<close>: one channel of the selected pixels.\<close>

definition set_channel :: "nat \<Rightarrow> nat \<Rightarrow> rgb \<Rightarrow> rgb" where
  "set_channel ch v p =
     (case p of (r, g, b) \<Rightarrow> if ch = 0 then (v, g, b) else if ch = 1 then (r, v, b) else (r, g, v))"

definition assign_channel ::
  "(nat \<Rightarrow> nat \<Rightarrow> bool) \<Rightarrow> nat \<Rightarrow> (nat \<Rightarrow> nat \<Rightarrow> nat) \<Rightarrow> rgb ndarray \<Rightarrow> rgb ndarray" where
  "assign_channel m ch f a =
     a\<lparr>rows := map (\<lambda>(j, row). map (\<lambda>(i, p). if m j i then set_channel ch (f j i) p else p)
                                  (enumerate 0 row))
                   (enumerate 0 (rows a))\<rparr>"

definition apply_terrain_colormap :: "real ndarray \<Rightarrow> py_error + rgb ndarray" where
  "apply_terrain_colormap cost_grid =
     (let c = cell cost_grid;
          rgb = np_full (nrows cost_grid) (ncols cost_grid) (0, 0, 0);
          safe = (\<lambda>j i. c j i < 0.3);
          rgb = assign_channel safe 1 (\<lambda>j i. astype_uint8 (255 * (1 - c j i / 0.3))) rgb;
          rgb = assign_channel safe 0 (\<lambda>j i. astype_uint8 (100 * (c j i / 0.3))) rgb;
          caution = (\<lambda>j i. c j i \<ge> 0.3 \<and> c j i < 0.6);
          t = (\<lambda>j i. (c j i - 0.3) / 0.3)
      in case int_astype_uint8 255 of
           Inl e \<Rightarrow> Inl e
         | Inr red \<Rightarrow>
             (let rgb = assign_channel caution 0 (\<lambda>j i. red) rgb;
                  rgb = assign_channel caution 1 (\<lambda>j i. astype_uint8 (255 * (1 - t j i))) rgb;
                  danger = (\<lambda>j i. c j i \<ge> 0.6);
                  rgb = assign_channel danger 0 (\<lambda>j i. 255) rgb;
                  rgb = assign_channel danger 1 (\<lambda>j i. 0) rgb;
                  rgb = assign_channel danger 2 (\<lambda>j i. 0) rgb
              in Inr rgb))"

text \<open>
  \<open>export_cost_grid_ros\<close>. The product \<open>cost_grid * 100\<close> is a floating-point
  product in the dtype of the array: the exact product, rounded into that format.
  The rounding is the parameter \<open>rnd\<close>. Rounding into an IEEE binary format is
  monotone and leaves the integers from 0 to 100 unchanged, since the format
  represents them; \<open>rounds_to_format\<close> asks this of \<open>rnd\<close> and nothing more.
  \<open>astype(np.int8)\<close> truncates towards zero; a value outside the int8 range wraps
  around.
\<close>

definition rounds_to_format :: "(real \<Rightarrow> real) \<Rightarrow> bool" where
  "rounds_to_format rnd =
     ((\<forall>x y. x \<le> y \<longrightarrow> rnd x \<le> rnd y)
      \<and> (\<forall>n. 0 \<le> n \<and> n \<le> 100 \<longrightarrow> rnd (real_of_int n) = real_of_int n))"

definition astype_int8 :: "real \<Rightarrow> int" where
  "astype_int8 x = (trunc x + 128) mod 256 - 128"

record occupancy_grid =
  og_frame_id :: string
  og_resolution :: real
  og_width :: nat
  og_height :: nat
  og_origin_position :: "real \<times> real \<times> real"
  og_origin_orientation :: "real \<times> real \<times> real \<times> real"
  og_data :: "int list"

definition export_cost_grid_ros ::
  "(real \<Rightarrow> real) \<Rightarrow> real ndarray \<Rightarrow> real \<Rightarrow> occupancy_grid" where
  "export_cost_grid_ros rnd cost_grid resolution =
     (let h = nrows cost_grid;
          w = ncols cost_grid;
          occupancy = concat (map (map (\<lambda>c. astype_int8 (rnd (c * 100)))) (rows cost_grid))
      in \<lparr>og_frame_id = ''map'', og_resolution = resolution, og_width = w, og_height = h,
          og_origin_position = (0, 0, 0), og_origin_orientation = (0, 0, 0, 1),
          og_data = occupancy\<rparr>)"

section \<open>main.py: height map of the terrain endpoint\<close>

definition H_BASE :: "real list" where
  "H_BASE = [0.55, 0.35, 0.22, 0.08, 0.18, 0.02, 0.12, - 0.25, 0.28, 0.80]"

definition H_VAR :: "real list" where
  "H_VAR = [0.50, 0.20, 0.12, 0.08, 0.15, 0.04, 0.06, 0.05, 0.12, 0.40]"

text \<open>
  Indexing a Python list with a class id (never negative here) raises IndexError
  past the end. \<open>np.vectorize(f)(a)\<close> raises ValueError on an array without cells
  and otherwise applies \<open>f\<close> to every cell; the first failure of \<open>f\<close> ends the call.
\<close>

definition list_index :: "'a list \<Rightarrow> nat \<Rightarrow> py_error + 'a" where
  "list_index xs k = (if k < length xs then Inr (xs ! k) else Inl IndexError)"

fun map_result :: "('a \<Rightarrow> py_error + 'b) \<Rightarrow> 'a list \<Rightarrow> py_error + 'b list" where
  "map_result f [] = Inr []"
| "map_result f (x # xs) =
     (case f x of
        Inl e \<Rightarrow> Inl e
      | Inr y \<Rightarrow> (case map_result f xs of Inl e \<Rightarrow> Inl e | Inr ys \<Rightarrow> Inr (y # ys)))"

definition np_vectorize :: "('a \<Rightarrow> py_error + 'b) \<Rightarrow> 'a ndarray \<Rightarrow> py_error + 'b ndarray" where
  "np_vectorize f a =
     (if nrows a * ncols a = 0 then Inl ValueError
      else case map_result (map_result f) (rows a) of
             Inl e \<Rightarrow> Inl e
           | Inr rs \<Rightarrow> Inr \<lparr>nrows = nrows a, ncols = ncols a, rows = rs\<rparr>)"

text \<open>
  The height map of \<open>get_terrain\<close> (source lines 187 to 193) for a class grid
  \<open>labels\<close>; \<open>noise j i\<close> is the value of \<open>rng.random((grid, grid))\<close> at row \<open>j\<close>, column
  \<open>i\<close>, a parameter.
\<close>

definition height_map :: "(nat \<Rightarrow> nat \<Rightarrow> real) \<Rightarrow> nat ndarray \<Rightarrow> py_error + real ndarray" where
  "height_map noise labels =
     (case np_vectorize (list_index H_BASE) labels of
        Inl e \<Rightarrow> Inl e
      | Inr base \<Rightarrow>
          (case np_vectorize (list_index H_VAR) labels of
             Inl e \<Rightarrow> Inl e
           | Inr var \<Rightarrow>
               Inr (np_build (nrows labels) (ncols labels)
                      (\<lambda>j i. cell base j i + cell var j i * noise j i))))"

section \<open>Sample inputs\<close>

text \<open>
  A noise environment with simple closed forms, used to run the generators on
  concrete grids: the wave is the normalised column index minus one half, the
  pseudo-random value a residue modulo 100, scaled into the unit interval.
\<close>

definition demo_env :: noise_env where
  "demo_env =
     \<lparr>sine_noise = (\<lambda>x z fs seed. map_option (\<lambda>v. v - 1 / 2) x),
      pseudo_rand = (\<lambda>gx gy seed. Some (real_of_int ((37 * gx + 59 * gy + seed) mod 100) / 100))\<rparr>"

text \<open>
  Rounding to the nearest multiple of 2 to the power \<open>- p\<close>. For \<open>p = 17\<close> this is
  the rounding of float32 on the values from 64 to 128, and for \<open>p = 47\<close> that of
  float64 on the values from 32 to 64, where these are the spacings of the formats.
\<close>

definition round_to_grid :: "nat \<Rightarrow> real \<Rightarrow> real" where
  "round_to_grid p x = real_of_int \<lfloor>x * 2 ^ p + 1 / 2\<rfloor> / 2 ^ p"

definition no_jitter :: "nat \<Rightarrow> nat \<Rightarrow> nat \<Rightarrow> real \<times> real \<times> real" where
  "no_jitter cid j i = (0, 0, 0)"

definition black_resample :: "nat \<Rightarrow> rgb ndarray \<Rightarrow> nat \<Rightarrow> nat \<Rightarrow> rgb" where
  "black_resample k img j i = (0, 0, 0)"

section \<open>Arrays and mask assignment\<close>

lemma list_all_map_enumerate:
  "list_all Q (map (\<lambda>(i, c). f i c) (enumerate n xs)) = (\<forall>k<length xs. Q (f (n + k) (xs ! k)))"
  by (simp add: list_all_length nth_enumerate_eq)

lemma rows_mask_assign_length [simp]: "length (rows (mask_assign m v a)) = length (rows a)"
  by (simp add: mask_assign_def)

lemma shape_mask_assign [simp]:
  "nrows (mask_assign m v a) = nrows a" "ncols (mask_assign m v a) = ncols a"
  by (simp_all add: mask_assign_def)

lemma row_mask_assign_length [simp]:
  "j < length (rows a) \<Longrightarrow> length (rows (mask_assign m v a) ! j) = length (rows a ! j)"
  by (simp add: mask_assign_def nth_enumerate_eq)

lemma cell_mask_assign:
  "j < length (rows a) \<Longrightarrow> i < length (rows a ! j) \<Longrightarrow>
   cell (mask_assign m v a) j i = (if m j i then v else cell a j i)"
  by (simp add: mask_assign_def cell_def nth_enumerate_eq)

lemma wf_mask_assign [simp]: "wf_array (mask_assign m v a) = wf_array a"
  by (simp add: wf_array_def mask_assign_def list_all_length nth_enumerate_eq)

lemma wf_np_full [simp]: "wf_array (np_full h w v)"
  by (simp add: wf_array_def np_full_def list_all_iff)

lemma all_cells_np_full: "P v \<Longrightarrow> all_cells P (np_full h w v)"
  by (simp add: all_cells_def np_full_def list_all_iff)

lemma all_cells_mask_assign:
  "P v \<Longrightarrow> all_cells P a \<Longrightarrow> all_cells P (mask_assign m v a)"
  by (simp add: all_cells_def mask_assign_def list_all_length nth_enumerate_eq)

lemma shape_np_full [simp]: "nrows (np_full h w v) = h" "ncols (np_full h w v) = w"
  by (simp_all add: np_full_def)

lemma all_cells_cell:
  "all_cells P a \<Longrightarrow> j < length (rows a) \<Longrightarrow> i < length (rows a ! j) \<Longrightarrow> P (cell a j i)"
  by (simp add: all_cells_def cell_def list_all_length)

section \<open>Evaluation on sample inputs\<close>

lemma sqrt_less_eval: "0 < y \<Longrightarrow> (sqrt x < y) = (x < y\<^sup>2)"
  by (metis real_sqrt_less_iff real_sqrt_abs abs_of_pos)

lemma sqrt_ge_eval: "0 < y \<Longrightarrow> (y \<le> sqrt x) = (y\<^sup>2 \<le> x)"
  by (metis real_sqrt_le_iff real_sqrt_abs abs_of_pos)

lemma fcmp_Some:
  "fgt (Some x) b = (b < x)" "flt (Some x) b = (x < b)" "fge (Some x) b = (b \<le> x)"
  by (simp_all add: fgt_def flt_def fge_def)

lemma fcmp_None: "fgt None b = False" "flt None b = False" "fge None b = False"
  by (simp_all add: fgt_def flt_def fge_def)

lemma fcmp_hypot:
  "0 < d \<Longrightarrow> flt (np_hypot (Some x) (Some y)) d = (x\<^sup>2 + y\<^sup>2 < d\<^sup>2)"
  "0 < d \<Longrightarrow> fge (np_hypot (Some x) (Some y)) d = (d\<^sup>2 \<le> x\<^sup>2 + y\<^sup>2)"
  by (simp_all add: flt_def fge_def np_hypot_def sqrt_less_eval sqrt_ge_eval)

lemma hypot_None: "np_hypot None b = None" "np_hypot a None = None"
  by (simp_all add: np_hypot_def split: option.splits)

lemmas eval_defs =
  mixed_zones_def gravel_path_rule_def sand_strip_rule_def mixed_wave_def mixed_rand_def
  mesh_X_def mesh_Z_def norm_coord_def np_full_def mask_assign_def fcmp_Some fcmp_None
  fcmp_hypot hypot_None abs_diff_def demo_env_def cell_def Let_def eval_nat_numeral

section \<open>Class-id closure of the generators\<close>

lemma registry_ids_eq: "registry_ids = [0, 1, 2, 3, 4, 5, 6, 7, 8, 9]"
  by (simp add: registry_ids_def TERRAIN_CLASSES_def)

lemma valid_np_full: "v \<in> set registry_ids \<Longrightarrow> v \<le> 9 \<Longrightarrow> valid_class_grid n (np_full n n v)"
  by (simp add: valid_class_grid_def all_cells_np_full)

lemma valid_mask_assign:
  "v \<in> set registry_ids \<Longrightarrow> v \<le> 9 \<Longrightarrow> valid_class_grid n a \<Longrightarrow> valid_class_grid n (mask_assign m v a)"
  by (simp add: valid_class_grid_def all_cells_mask_assign)

lemma valid_mixed_zones: "valid_class_grid n (mixed_zones X Z wave r n)"
  unfolding mixed_zones_def Let_def
  by (intro valid_mask_assign valid_np_full) (simp_all add: registry_ids_eq)

lemma valid_gravel: "valid_class_grid n a \<Longrightarrow> valid_class_grid n (gravel_path_rule X Z a)"
  unfolding gravel_path_rule_def Let_def
  by (intro valid_mask_assign) (simp_all add: registry_ids_eq)

lemma valid_sand: "valid_class_grid n a \<Longrightarrow> valid_class_grid n (sand_strip_rule wave r a)"
  unfolding sand_strip_rule_def
  by (intro valid_mask_assign) (simp_all add: registry_ids_eq)

lemma gen_desert_valid:
  "0 \<le> seed \<Longrightarrow> 0 \<le> gsize \<Longrightarrow> \<exists>g. gen_desert env gsize seed = Inr g \<and> valid_class_grid (nat gsize) g"
  unfolding gen_desert_def Let_def
  by (simp, intro valid_mask_assign valid_np_full) (simp_all add: registry_ids_eq)

lemma gen_rocky_valid:
  "0 \<le> seed \<Longrightarrow> 0 \<le> gsize \<Longrightarrow> \<exists>g. gen_rocky env gsize seed = Inr g \<and> valid_class_grid (nat gsize) g"
  unfolding gen_rocky_def Let_def
  by (simp, intro valid_mask_assign valid_np_full) (simp_all add: registry_ids_eq)

lemma gen_mixed_valid:
  "0 \<le> seed \<Longrightarrow> 0 \<le> gsize \<Longrightarrow> \<exists>g. gen_mixed env gsize seed = Inr g \<and> valid_class_grid (nat gsize) g"
  unfolding gen_mixed_def Let_def
  by (simp add: valid_sand valid_gravel valid_mixed_zones)

lemma gen_negative_seed:
  "seed < 0 \<Longrightarrow> gen_desert env gsize seed = Inl ValueError \<and> gen_rocky env gsize seed = Inl ValueError
     \<and> gen_mixed env gsize seed = Inl ValueError"
  by (simp add: gen_desert_def gen_rocky_def gen_mixed_def)

text \<open>
  Claim C7. For every positive grid size, every seed and every noise environment,
  each of gen_desert, gen_rocky and gen_mixed either fails, which happens exactly
  for a negative seed, or returns a well-formed square grid of that size whose
  cells are all ids of the registry, that is, numbers from 0 to 9.
\<close>

theorem gen_class_id_closure:
  assumes "0 < gsize"
  shows "(case gen_desert env gsize seed of Inl e \<Rightarrow> seed < 0 | Inr g \<Rightarrow> valid_class_grid (nat gsize) g)
       \<and> (case gen_rocky env gsize seed of Inl e \<Rightarrow> seed < 0 | Inr g \<Rightarrow> valid_class_grid (nat gsize) g)
       \<and> (case gen_mixed env gsize seed of Inl e \<Rightarrow> seed < 0 | Inr g \<Rightarrow> valid_class_grid (nat gsize) g)"
proof (cases "seed < 0")
  case True
  then show ?thesis using gen_negative_seed [of seed env gsize] by simp
next
  case False
  then have s: "0 \<le> seed" by simp
  from assms have g: "0 \<le> gsize" by simp
  from gen_desert_valid [OF s g, of env] gen_rocky_valid [OF s g, of env] gen_mixed_valid [OF s g, of env]
  show ?thesis by auto
qed

theorem gen_class_id_closure_witness:
  "(0::int) < 2
   \<and> gen_desert demo_env 2 1 = Inr \<lparr>nrows = 2, ncols = 2, rows = [[4, 2], [4, 0]]\<rparr>
   \<and> valid_class_grid 2 \<lparr>nrows = 2, ncols = 2, rows = [[4, 2], [4, 0]]\<rparr>
   \<and> (\<exists>g. gen_rocky demo_env 2 1 = Inr g \<and> valid_class_grid 2 g)
   \<and> gen_mixed demo_env 2 1 = Inr \<lparr>nrows = 2, ncols = 2, rows = [[1, 9], [4, 6]]\<rparr>
   \<and> valid_class_grid 2 \<lparr>nrows = 2, ncols = 2, rows = [[1, 9], [4, 6]]\<rparr>"
proof -
  have h: "(0::int) < 2" by simp
  have d: "gen_desert demo_env 2 1 = Inr \<lparr>nrows = 2, ncols = 2, rows = [[4, 2], [4, 0]]\<rparr>"
    by (simp add: gen_desert_def eval_defs)
  have m: "gen_mixed demo_env 2 1 = Inr \<lparr>nrows = 2, ncols = 2, rows = [[1, 9], [4, 6]]\<rparr>"
    by (simp add: gen_mixed_def eval_defs)
  have r: "\<exists>g. gen_rocky demo_env 2 1 = Inr g"
    by (simp add: gen_rocky_def Let_def)
  from gen_class_id_closure [OF h, where env = demo_env and seed = 1] d m r show ?thesis
    by auto
qed

section \<open>The default-only rules of the mixed style\<close>

lemma gravel_path_rule_keeps:
  "j < length (rows g) \<Longrightarrow> i < length (rows g ! j) \<Longrightarrow> cell g j i \<noteq> 4 \<Longrightarrow>
   cell (gravel_path_rule X Z g) j i = cell g j i"
  by (simp add: gravel_path_rule_def Let_def cell_mask_assign)

lemma sand_strip_rule_keeps:
  "j < length (rows g) \<Longrightarrow> i < length (rows g ! j) \<Longrightarrow> cell g j i \<noteq> 4 \<Longrightarrow>
   cell (sand_strip_rule wave r g) j i = cell g j i"
  by (simp add: sand_strip_rule_def cell_mask_assign)

lemma gravel_path_rule_shape:
  "length (rows (gravel_path_rule X Z g)) = length (rows g)"
  "j < length (rows g) \<Longrightarrow> length (rows (gravel_path_rule X Z g) ! j) = length (rows g ! j)"
  by (simp_all add: gravel_path_rule_def Let_def)

text \<open>
  Claim C6. In the mixed style, the gravel-path rule and the sand-strip rule leave
  unchanged every cell whose value in the grid they receive is not the Landscape
  default 4, whether they run alone or one after the other; in gen_mixed itself,
  a cell that the zone rules set to a class other than 4 keeps that class in the
  returned grid.
\<close>

theorem mixed_default_only_rules:
  assumes "j < length (rows g)" and "i < length (rows g ! j)" and "cell g j i \<noteq> 4"
  shows "cell (gravel_path_rule X Z g) j i = cell g j i
       \<and> cell (sand_strip_rule wave r g) j i = cell g j i
       \<and> cell (sand_strip_rule wave r (gravel_path_rule X Z g)) j i = cell g j i
       \<and> (0 \<le> seed \<and> g = mixed_zones (mesh_X gsize) (mesh_Z gsize) (mixed_wave env gsize seed)
                              (mixed_rand env seed) (nat gsize)
            \<longrightarrow> (\<exists>m. gen_mixed env gsize seed = Inr m \<and> cell m j i = cell g j i))"
proof -
  have a: "cell (gravel_path_rule X Z g) j i = cell g j i" for X Z
    using assms by (rule gravel_path_rule_keeps)
  have b: "cell (sand_strip_rule wave r g) j i = cell g j i" for wave r
    using assms by (rule sand_strip_rule_keeps)
  have c: "cell (sand_strip_rule wave r (gravel_path_rule X Z g)) j i = cell g j i" for wave r X Z
  proof -
    have "cell (gravel_path_rule X Z g) j i \<noteq> 4" using a assms(3) by simp
    then have "cell (sand_strip_rule wave r (gravel_path_rule X Z g)) j i
                 = cell (gravel_path_rule X Z g) j i"
      using assms(1,2) by (intro sand_strip_rule_keeps) (simp_all add: gravel_path_rule_shape)
    then show ?thesis using a by simp
  qed
  have d: "\<exists>m. gen_mixed env gsize seed = Inr m \<and> cell m j i = cell g j i"
    if s: "0 \<le> seed"
      and g: "g = mixed_zones (mesh_X gsize) (mesh_Z gsize) (mixed_wave env gsize seed)
                    (mixed_rand env seed) (nat gsize)"
  proof -
    have "length (rows g) = nat gsize"
      using valid_mixed_zones [of "nat gsize"] unfolding g valid_class_grid_def wf_array_def by simp
    with assms(1) have "0 \<le> gsize" by simp
    with s have "gen_mixed env gsize seed
        = Inr (sand_strip_rule (mixed_wave env gsize seed) (mixed_rand env seed)
                 (gravel_path_rule (mesh_X gsize) (mesh_Z gsize) g))"
      by (simp add: gen_mixed_def Let_def g)
    with c show ?thesis by simp
  qed
  from a b c d show ?thesis by blast
qed

theorem mixed_default_only_rules_witness:
  "mixed_zones (mesh_X 2) (mesh_Z 2) (mixed_wave demo_env 2 1) (mixed_rand demo_env 1) (nat 2)
     = \<lparr>nrows = 2, ncols = 2, rows = [[1, 9], [4, 6]]\<rparr>
   \<and> cell \<lparr>nrows = 2, ncols = 2, rows = [[1, 9], [4, 6 :: nat]]\<rparr> 0 1 \<noteq> 4
   \<and> cell (gravel_path_rule (mesh_X 2) (mesh_Z 2) \<lparr>nrows = 2, ncols = 2, rows = [[1, 9], [4, 6]]\<rparr>) 0 1 = 9
   \<and> cell (sand_strip_rule (mixed_wave demo_env 2 1) (mixed_rand demo_env 1)
              \<lparr>nrows = 2, ncols = 2, rows = [[1, 9], [4, 6]]\<rparr>) 0 1 = 9
   \<and> (\<exists>m. gen_mixed demo_env 2 1 = Inr m \<and> cell m 0 1 = 9)"
proof -
  let ?g = "\<lparr>nrows = 2, ncols = 2, rows = [[1, 9], [4, 6 :: nat]]\<rparr>"
  have z: "mixed_zones (mesh_X 2) (mesh_Z 2) (mixed_wave demo_env 2 1) (mixed_rand demo_env 1) (nat 2) = ?g"
    by (simp add: eval_defs)
  have h1: "0 < length (rows ?g)" by simp
  have h2: "1 < length (rows ?g ! 0)" by simp
  have h3: "cell ?g 0 1 \<noteq> 4" by (simp add: cell_def)
  have v: "cell ?g 0 1 = 9" by (simp add: cell_def)
  from mixed_default_only_rules [OF h1 h2 h3, where X = "mesh_X 2" and Z = "mesh_Z 2"
      and wave = "mixed_wave demo_env 2 1" and r = "mixed_rand demo_env 1" and seed = 1 and gsize = 2
      and env = demo_env] z h3 v
  show ?thesis by simp
qed

section \<open>Grids of size zero\<close>






section \<open>Style selection\<close>

text \<open>
  Claim C8. For every non-negative integer k, every grid size and every noise
  environment, gen_random with seed 3k returns exactly what gen_desert returns for
  that seed, with seed 3k+1 what gen_rocky returns and with seed 3k+2 what gen_mixed
  returns; the style is a function of seed mod 3 alone.
\<close>

theorem gen_random_style_selection:
  "gen_random env gsize (3 * int k) = gen_desert env gsize (3 * int k)
   \<and> gen_random env gsize (3 * int k + 1) = gen_rocky env gsize (3 * int k + 1)
   \<and> gen_random env gsize (3 * int k + 2) = gen_mixed env gsize (3 * int k + 2)
   \<and> gen_random env gsize seed =
       (if seed mod 3 = 0 then gen_desert env gsize seed
        else if seed mod 3 = 1 then gen_rocky env gsize seed
        else gen_mixed env gsize seed)"
  by (simp add: gen_random_def Let_def)

section \<open>Cost colour ramp and class lookup\<close>

text \<open>
  Claim C1. The zoned colour ramp is what the docstring of apply_terrain_colormap
  describes, but the function cannot return it: the right-hand side of the first
  assignment of the caution zone calls astype on the Python integer 255, so every
  call ends in AttributeError, for every cost grid, the one-cell grid holding 0.45
  included.
\<close>

theorem apply_terrain_colormap_raises:
  "apply_terrain_colormap cost_grid = Inl AttributeError
   \<and> apply_terrain_colormap \<lparr>nrows = 1, ncols = 1, rows = [[0.45]]\<rparr> = Inl AttributeError"
  by (simp add: apply_terrain_colormap_def int_astype_uint8_def Let_def)

text \<open>
  Claim C5. A cell whose class id is not in the registry is not given the cost or
  the colour of any class: the cost loop leaves it at the initial 0, which is the
  cost of no class of the registry, and the renderer leaves its pixel at the
  initial black, the colour of no class. Shown for the one-cell mask holding 42.
\<close>

theorem unknown_id_gets_no_class:
  "raw_cost_grid \<lparr>nrows = 1, ncols = 1, rows = [[42]]\<rparr> TERRAIN_CLASSES
     = \<lparr>nrows = 1, ncols = 1, rows = [[0]]\<rparr>
   \<and> 0 \<notin> set (map tc_cost TERRAIN_CLASSES)
   \<and> render_rgb no_jitter \<lparr>nrows = 1, ncols = 1, rows = [[42]]\<rparr>
     = \<lparr>nrows = 1, ncols = 1, rows = [[(0, 0, 0)]]\<rparr>
   \<and> (0, 0, 0) \<notin> set (map tc_rgb TERRAIN_CLASSES)"
  by (simp add: raw_cost_grid_def render_rgb_def TERRAIN_CLASSES_def paint_class_def
      mask_assign_each_def mask_assign_def np_full_def cell_def)

lemma length_concat_uniform:
  "list_all (\<lambda>row. length row = w) xss \<Longrightarrow> length (concat xss) = length xss * w"
  by (induction xss) simp_all

lemma nth_concat_uniform:
  "list_all (\<lambda>row. length row = w) xss \<Longrightarrow> j < length xss \<Longrightarrow> i < w \<Longrightarrow>
   concat xss ! (j * w + i) = xss ! j ! i"
proof (induction xss arbitrary: j)
  case Nil
  then show ?case by simp
next
  case (Cons xs xss)
  show ?case
  proof (cases j)
    case 0
    with Cons.prems show ?thesis by (simp add: nth_append)
  next
    case (Suc k)
    with Cons.prems have "concat xss ! (k * w + i) = xss ! k ! i"
      by (intro Cons.IH) simp_all
    with Suc Cons.prems show ?thesis by (simp add: nth_append add.assoc)
  qed
qed

section \<open>Grid export\<close>

lemma concat_replicate_replicate:
  "concat (replicate h (replicate w x)) = replicate (h * w) x"
  by (induction h) (simp_all add: replicate_add)

lemma rounds_exact:
  "rounds_to_format rnd \<Longrightarrow> 0 \<le> n \<Longrightarrow> n \<le> 100 \<Longrightarrow> rnd (real_of_int n) = real_of_int n"
  by (simp add: rounds_to_format_def)

lemma rounded_unit_range:
  assumes "rounds_to_format rnd" and "0 \<le> c" and "c \<le> 1"
  shows "0 \<le> rnd (c * 100)" and "rnd (c * 100) \<le> 100"
proof -
  have mon: "\<And>x y. x \<le> y \<Longrightarrow> rnd x \<le> rnd y"
    and exact: "\<And>n. 0 \<le> n \<Longrightarrow> n \<le> 100 \<Longrightarrow> rnd (real_of_int n) = real_of_int n"
    using assms(1) by (simp_all add: rounds_to_format_def)
  have z: "rnd 0 = 0" using exact [of 0] by simp
  have h: "rnd 100 = 100" using exact [of 100] by simp
  have "rnd 0 \<le> rnd (c * 100)" using assms(2) by (intro mon) simp
  with z show "0 \<le> rnd (c * 100)" by simp
  have "rnd (c * 100) \<le> rnd 100" using assms(3) by (intro mon) simp
  with h show "rnd (c * 100) \<le> 100" by simp
qed

lemma astype_int8_rounded:
  assumes "rounds_to_format rnd" and "0 \<le> c" and "c \<le> 1"
  shows "astype_int8 (rnd (c * 100)) = \<lfloor>rnd (c * 100)\<rfloor>"
    and "0 \<le> astype_int8 (rnd (c * 100))" and "astype_int8 (rnd (c * 100)) \<le> 100"
proof -
  note r = rounded_unit_range [OF assms]
  have t: "trunc (rnd (c * 100)) = \<lfloor>rnd (c * 100)\<rfloor>" using r(1) by (simp add: trunc_def)
  have lo: "0 \<le> \<lfloor>rnd (c * 100)\<rfloor>" using r(1) by simp
  have hi: "\<lfloor>rnd (c * 100)\<rfloor> \<le> 100" using r(2) by (simp add: floor_le_iff)
  from lo hi show e: "astype_int8 (rnd (c * 100)) = \<lfloor>rnd (c * 100)\<rfloor>"
    by (simp add: astype_int8_def t)
  from e lo hi show "0 \<le> astype_int8 (rnd (c * 100))" "astype_int8 (rnd (c * 100)) \<le> 100"
    by simp_all
qed

lemma rounds_to_format_grid: "rounds_to_format (round_to_grid p)"
proof -
  have m: "round_to_grid p x \<le> round_to_grid p y" if "x \<le> y" for x y
  proof -
    from that have "x * 2 ^ p + 1 / 2 \<le> y * 2 ^ p + 1 / 2" by simp
    then have "\<lfloor>x * 2 ^ p + 1 / 2\<rfloor> \<le> \<lfloor>y * 2 ^ p + 1 / 2\<rfloor>" by (rule floor_mono)
    then show ?thesis by (simp add: round_to_grid_def divide_right_mono)
  qed
  have f: "round_to_grid p (real_of_int n) = real_of_int n" for n
  proof -
    have "real_of_int n * 2 ^ p + 1 / 2 = real_of_int (n * 2 ^ p) + 1 / 2" by simp
    then have "\<lfloor>real_of_int n * 2 ^ p + 1 / 2\<rfloor> = n * 2 ^ p"
      by (simp only: floor_add_int [symmetric] add.commute [of "real_of_int (n * 2 ^ p)"])
         simp
    then show ?thesis by (simp add: round_to_grid_def)
  qed
  from m f show ?thesis by (simp add: rounds_to_format_def)
qed

text \<open>
  Claim C9. For every well-formed H by W cost grid with all cells in the unit
  interval, export_cost_grid_ros reports width W and height H, and its data array
  has length W * H, holds at index j * W + i the truncation of the floating-point
  product of 100 and the cell at row j, column i, and has all values between 0
  and 100, inside the range of a signed 8-bit integer; a grid of all 0.5 exports
  to an array of all 50. This holds for every rounding of the product that is
  monotone and exact on the integers from 0 to 100.
\<close>

theorem export_cost_grid_ros_correct:
  assumes "rounds_to_format rnd" and "wf_array g" and "all_cells (\<lambda>c. 0 \<le> c \<and> c \<le> 1) g"
  shows "og_width (export_cost_grid_ros rnd g res) = ncols g
       \<and> og_height (export_cost_grid_ros rnd g res) = nrows g
       \<and> og_resolution (export_cost_grid_ros rnd g res) = res
       \<and> length (og_data (export_cost_grid_ros rnd g res)) = ncols g * nrows g
       \<and> (\<forall>j<nrows g. \<forall>i<ncols g.
             og_data (export_cost_grid_ros rnd g res) ! (j * ncols g + i)
               = trunc (rnd (cell g j i * 100))
             \<and> trunc (rnd (cell g j i * 100)) = \<lfloor>rnd (cell g j i * 100)\<rfloor>)
       \<and> list_all (\<lambda>v. 0 \<le> v \<and> v \<le> 100 \<and> - 128 \<le> v \<and> v \<le> 127)
             (og_data (export_cost_grid_ros rnd g res))
       \<and> og_data (export_cost_grid_ros rnd (np_full h w (1 / 2)) res) = replicate (w * h) 50
       \<and> og_width (export_cost_grid_ros rnd (np_full h w (1 / 2)) res) = w
       \<and> og_height (export_cost_grid_ros rnd (np_full h w (1 / 2)) res) = h"
proof -
  let ?occ = "map (map (\<lambda>c. astype_int8 (rnd (c * 100)))) (rows g)"
  have data: "og_data (export_cost_grid_ros rnd g res) = concat ?occ"
    by (simp add: export_cost_grid_ros_def Let_def)
  have len: "length (rows g) = nrows g" and rowlen: "list_all (\<lambda>row. length row = ncols g) (rows g)"
    using assms(2) by (simp_all add: wf_array_def)
  have rowlen': "list_all (\<lambda>row. length row = ncols g) ?occ"
    using rowlen by (simp add: list_all_iff)
  have unit: "0 \<le> cell g j i \<and> cell g j i \<le> 1" if "j < nrows g" "i < ncols g" for j i
    using assms(3) that len rowlen by (simp add: all_cells_def cell_def list_all_length)
  have l: "length (og_data (export_cost_grid_ros rnd g res)) = ncols g * nrows g"
    using length_concat_uniform [OF rowlen'] len by (simp add: data mult.commute)
  have n: "og_data (export_cost_grid_ros rnd g res) ! (j * ncols g + i)
             = trunc (rnd (cell g j i * 100))
           \<and> trunc (rnd (cell g j i * 100)) = \<lfloor>rnd (cell g j i * 100)\<rfloor>"
    if ji: "j < nrows g" "i < ncols g" for j i
  proof -
    from unit [OF ji] have u0: "0 \<le> cell g j i" and u1: "cell g j i \<le> 1" by simp_all
    have t: "trunc (rnd (cell g j i * 100)) = \<lfloor>rnd (cell g j i * 100)\<rfloor>"
      using rounded_unit_range(1) [OF assms(1) u0 u1] by (simp add: trunc_def)
    have "concat ?occ ! (j * ncols g + i) = ?occ ! j ! i"
      using ji len by (intro nth_concat_uniform [OF rowlen']) simp_all
    also have "\<dots> = astype_int8 (rnd (cell g j i * 100))"
      using ji len rowlen by (simp add: cell_def list_all_length)
    also have "\<dots> = \<lfloor>rnd (cell g j i * 100)\<rfloor>"
      by (rule astype_int8_rounded(1) [OF assms(1) u0 u1])
    finally show ?thesis using t by (simp add: data)
  qed
  have r: "list_all (\<lambda>v. 0 \<le> v \<and> v \<le> 100 \<and> - 128 \<le> v \<and> v \<le> 127)
             (og_data (export_cost_grid_ros rnd g res))"
  proof -
    have "0 \<le> astype_int8 (rnd (c * 100)) \<and> astype_int8 (rnd (c * 100)) \<le> 100"
      if "row \<in> set (rows g)" "c \<in> set row" for row c
    proof -
      from assms(3) that have "0 \<le> c" and "c \<le> 1" by (simp_all add: all_cells_def list_all_iff)
      then show ?thesis using astype_int8_rounded(2,3) [OF assms(1)] by simp
    qed
    then show ?thesis by (fastforce simp add: data list_all_iff)
  qed
  have "rnd (real_of_int 50) = real_of_int 50"
    by (rule rounds_exact [OF assms(1)]) simp_all
  then have r50: "rnd 50 = 50" by simp
  have half: "astype_int8 (rnd 50) = 50" by (simp add: r50 astype_int8_def trunc_def)
  have u: "og_data (export_cost_grid_ros rnd (np_full h w (1 / 2)) res) = replicate (w * h) 50"
    by (simp add: export_cost_grid_ros_def Let_def np_full_def half concat_replicate_replicate
        mult.commute)
  from l n r u show ?thesis
    by (simp add: export_cost_grid_ros_def Let_def)
qed

theorem export_cost_grid_ros_correct_witness:
  "rounds_to_format (round_to_grid 17)
   \<and> wf_array \<lparr>nrows = 2, ncols = 2, rows = [[0, 15099494 / 16777216], [1 / 2, 1 :: real]]\<rparr>
   \<and> all_cells (\<lambda>c. 0 \<le> c \<and> c \<le> 1)
         \<lparr>nrows = 2, ncols = 2, rows = [[0, 15099494 / 16777216], [1 / 2, 1 :: real]]\<rparr>
   \<and> og_data (export_cost_grid_ros (round_to_grid 17)
         \<lparr>nrows = 2, ncols = 2, rows = [[0, 15099494 / 16777216], [1 / 2, 1]]\<rparr> 0.05)
       = [0, 90, 50, 100]
   \<and> og_width (export_cost_grid_ros (round_to_grid 17)
         \<lparr>nrows = 2, ncols = 2, rows = [[0, 15099494 / 16777216], [1 / 2, 1]]\<rparr> 0.05) = 2
   \<and> og_height (export_cost_grid_ros (round_to_grid 17)
         \<lparr>nrows = 2, ncols = 2, rows = [[0, 15099494 / 16777216], [1 / 2, 1]]\<rparr> 0.05) = 2
   \<and> og_data (export_cost_grid_ros (round_to_grid 17) (np_full 1 1 (1 / 2)) 0.05) = [50]
   \<and> og_data (export_cost_grid_ros (round_to_grid 47)
         \<lparr>nrows = 1, ncols = 1, rows = [[6305039478318694 / 18014398509481984]]\<rparr> 0.05) = [35]"
proof -
  let ?g = "\<lparr>nrows = 2, ncols = 2, rows = [[0, 15099494 / 16777216], [1 / 2, 1 :: real]]\<rparr>"
  have h0: "rounds_to_format (round_to_grid 17)" by (rule rounds_to_format_grid)
  have h1: "wf_array ?g" by (simp add: wf_array_def)
  have h2: "all_cells (\<lambda>c. 0 \<le> c \<and> c \<le> 1) ?g" by (simp add: all_cells_def)
  have d: "og_data (export_cost_grid_ros (round_to_grid 17) ?g 0.05) = [0, 90, 50, 100]"
    by (simp add: export_cost_grid_ros_def Let_def astype_int8_def trunc_def round_to_grid_def)
  have e: "og_data (export_cost_grid_ros (round_to_grid 47)
         \<lparr>nrows = 1, ncols = 1, rows = [[6305039478318694 / 18014398509481984]]\<rparr> 0.05) = [35]"
    by (simp add: export_cost_grid_ros_def Let_def astype_int8_def trunc_def round_to_grid_def)
  from export_cost_grid_ros_correct [OF h0 h1 h2, where res = "0.05" and h = 1 and w = 1] h0 h1 h2 d e
  show ?thesis by simp
qed

section \<open>Height map\<close>

lemma map_result_ok:
  "(\<forall>x\<in>set xs. f x = Inr (g x)) \<Longrightarrow> map_result f xs = Inr (map g xs)"
  by (induction xs) simp_all

lemma np_vectorize_ok:
  assumes "0 < nrows a * ncols a" and "all_cells (\<lambda>c. f c = Inr (g c)) a"
  shows "np_vectorize f a = Inr \<lparr>nrows = nrows a, ncols = ncols a, rows = map (map g) (rows a)\<rparr>"
proof -
  have "\<forall>row\<in>set (rows a). map_result f row = Inr (map g row)"
    using assms(2) by (auto simp add: all_cells_def list_all_iff intro!: map_result_ok)
  then have "map_result (map_result f) (rows a) = Inr (map (map g) (rows a))"
    by (rule map_result_ok)
  with assms(1) show ?thesis by (simp add: np_vectorize_def)
qed

lemma cell_np_build: "j < h \<Longrightarrow> i < w \<Longrightarrow> cell (np_build h w f) j i = f j i"
  by (simp add: np_build_def cell_def)

lemma all_cells_mono: "all_cells P a \<Longrightarrow> (\<And>c. P c \<Longrightarrow> Q c) \<Longrightarrow> all_cells Q a"
  by (auto simp add: all_cells_def list_all_iff)

text \<open>
  Claim C10. For every non-empty well-formed class grid with ids below 10 and every
  noise field, the height map is built without error, has the shape of the grid,
  and its cell at row j, column i is base[classId] + variance[classId] * noise[j, i];
  for a cell of class 0, noise 0 gives height 0.55 and noise 1 gives height 1.05.
\<close>

theorem height_map_formula:
  assumes "wf_array labels" and "0 < nrows labels * ncols labels"
    and "all_cells (\<lambda>c. c < 10) labels"
  shows "(\<exists>hm. height_map noise labels = Inr hm
            \<and> nrows hm = nrows labels \<and> ncols hm = ncols labels
            \<and> (\<forall>j<nrows labels. \<forall>i<ncols labels.
                  cell hm j i = H_BASE ! cell labels j i + H_VAR ! cell labels j i * noise j i))
       \<and> height_map (\<lambda>j i. 0) \<lparr>nrows = 1, ncols = 1, rows = [[0]]\<rparr>
           = Inr \<lparr>nrows = 1, ncols = 1, rows = [[0.55]]\<rparr>
       \<and> height_map (\<lambda>j i. 1) \<lparr>nrows = 1, ncols = 1, rows = [[0]]\<rparr>
           = Inr \<lparr>nrows = 1, ncols = 1, rows = [[1.05]]\<rparr>"
proof -
  let ?base = "\<lparr>nrows = nrows labels, ncols = ncols labels, rows = map (map ((!) H_BASE)) (rows labels)\<rparr>"
  let ?var = "\<lparr>nrows = nrows labels, ncols = ncols labels, rows = map (map ((!) H_VAR)) (rows labels)\<rparr>"
  let ?hm = "np_build (nrows labels) (ncols labels) (\<lambda>j i. cell ?base j i + cell ?var j i * noise j i)"
  have b: "np_vectorize (list_index H_BASE) labels = Inr ?base"
    by (rule np_vectorize_ok [OF assms(2)], rule all_cells_mono [OF assms(3)])
       (simp add: list_index_def H_BASE_def)
  have v: "np_vectorize (list_index H_VAR) labels = Inr ?var"
    by (rule np_vectorize_ok [OF assms(2)], rule all_cells_mono [OF assms(3)])
       (simp add: list_index_def H_VAR_def)
  have hm: "height_map noise labels = Inr ?hm"
    by (simp add: height_map_def b v)
  have len: "length (rows labels) = nrows labels"
    and rowlen: "\<forall>j<nrows labels. length (rows labels ! j) = ncols labels"
    using assms(1) by (simp_all add: wf_array_def list_all_length)
  have c: "cell ?hm j i = H_BASE ! cell labels j i + H_VAR ! cell labels j i * noise j i"
    if "j < nrows labels" "i < ncols labels" for j i
    using that len rowlen by (simp add: cell_np_build) (simp add: cell_def)
  have s0: "height_map (\<lambda>j i. 0) \<lparr>nrows = 1, ncols = 1, rows = [[0]]\<rparr>
              = Inr \<lparr>nrows = 1, ncols = 1, rows = [[0.55]]\<rparr>"
    by (simp add: height_map_def np_vectorize_def list_index_def H_BASE_def H_VAR_def
        np_build_def cell_def)
  have s1: "height_map (\<lambda>j i. 1) \<lparr>nrows = 1, ncols = 1, rows = [[0]]\<rparr>
              = Inr \<lparr>nrows = 1, ncols = 1, rows = [[1.05]]\<rparr>"
    by (simp add: height_map_def np_vectorize_def list_index_def H_BASE_def H_VAR_def
        np_build_def cell_def)
  have "\<exists>hm. height_map noise labels = Inr hm
            \<and> nrows hm = nrows labels \<and> ncols hm = ncols labels
            \<and> (\<forall>j<nrows labels. \<forall>i<ncols labels.
                  cell hm j i = H_BASE ! cell labels j i + H_VAR ! cell labels j i * noise j i)"
    using hm c by (intro exI [of _ ?hm]) (simp add: np_build_def)
  with s0 s1 show ?thesis by blast
qed

theorem height_map_formula_witness:
  "wf_array \<lparr>nrows = 1, ncols = 2, rows = [[0, 7 :: nat]]\<rparr>
   \<and> all_cells (\<lambda>c. c < 10) \<lparr>nrows = 1, ncols = 2, rows = [[0, 7 :: nat]]\<rparr>
   \<and> height_map (\<lambda>j i. 1 / 2) \<lparr>nrows = 1, ncols = 2, rows = [[0, 7]]\<rparr>
       = Inr \<lparr>nrows = 1, ncols = 2, rows = [[0.8, - 0.225]]\<rparr>
   \<and> (\<exists>hm. height_map (\<lambda>j i. 1 / 2) \<lparr>nrows = 1, ncols = 2, rows = [[0, 7]]\<rparr> = Inr hm
         \<and> cell hm 0 1 = H_BASE ! 7 + H_VAR ! 7 * (1 / 2))"
proof -
  let ?l = "\<lparr>nrows = 1, ncols = 2, rows = [[0, 7 :: nat]]\<rparr>"
  have h1: "wf_array ?l" by (simp add: wf_array_def)
  have h2: "0 < nrows ?l * ncols ?l" by simp
  have h3: "all_cells (\<lambda>c. c < 10) ?l" by (simp add: all_cells_def)
  have e: "height_map (\<lambda>j i. 1 / 2) ?l = Inr \<lparr>nrows = 1, ncols = 2, rows = [[0.8, - 0.225]]\<rparr>"
    by (simp add: height_map_def np_vectorize_def list_index_def H_BASE_def H_VAR_def
        np_build_def cell_def eval_nat_numeral)
  from height_map_formula [OF h1 h2 h3, where noise = "\<lambda>j i. 1 / 2"] h1 h3 e
  show ?thesis by (auto simp add: cell_def H_BASE_def H_VAR_def eval_nat_numeral)
qed

section \<open>Augmentation\<close>

lemma shape_flips [simp]:
  "nrows (np_fliplr a) = nrows a" "ncols (np_fliplr a) = ncols a"
  "nrows (np_flipud a) = nrows a" "ncols (np_flipud a) = ncols a"
  by (simp_all add: np_fliplr_def np_flipud_def)

lemma np_rot90_0 [simp]: "np_rot90 0 m = m"
  by (simp add: np_rot90_def)

lemma shape_color_jitter [simp]:
  "nrows (color_jitter f a) = nrows a" "ncols (color_jitter f a) = ncols a"
  by (simp_all add: color_jitter_def)

lemma augment_geometry_label:
  "snd (augment_geometry rs img label d) = geometric_transform d label"
  by (simp add: augment_geometry_def geometric_transform_def Let_def)


lemma augment_geometry_image:
  "rot_k d mod 4 = 0 \<or> rot_k d mod 4 = 2 \<or> nrows img = ncols img \<Longrightarrow>
   fst (augment_geometry rs img label d) = geometric_transform d img"
  by (auto simp add: augment_geometry_def geometric_transform_def Let_def pil_rotate_def)

lemma augment_image_parts:
  "augment_image rs img label d =
     (color_jitter (jitter_factor d) (fst (augment_geometry rs img label d)),
      snd (augment_geometry rs img label d))"
  by (simp add: augment_image_def Let_def split: prod.splits)

lemma wf_fliplr [simp]: "wf_array (np_fliplr a) = wf_array a"
  by (simp add: wf_array_def np_fliplr_def list_all_iff)

lemma wf_flipud [simp]: "wf_array (np_flipud a) = wf_array a"
  by (simp add: wf_array_def np_flipud_def list_all_iff)

lemma map_cells_fliplr: "np_fliplr (map_cells f a) = map_cells f (np_fliplr a)"
  by (simp add: np_fliplr_def map_cells_def rev_map)

lemma map_cells_flipud: "np_flipud (map_cells f a) = map_cells f (np_flipud a)"
  by (simp add: np_flipud_def map_cells_def rev_map)

lemma map_cells_transpose:
  assumes "wf_array a"
  shows "np_transpose (map_cells f a) = map_cells f (np_transpose a)"
proof -
  have len: "length (rows a) = nrows a"
    and rowlen: "\<And>j. j < nrows a \<Longrightarrow> length (rows a ! j) = ncols a"
    using assms by (simp_all add: wf_array_def list_all_length)
  have "cell (map_cells f a) j i = f (cell a j i)" if "j < nrows a" "i < ncols a" for j i
    using that len rowlen by (simp add: cell_def map_cells_def)
  then show ?thesis
    by (simp add: np_transpose_def map_cells_def)
qed

lemma map_cells_rot90:
  "wf_array a \<Longrightarrow> np_rot90 k (map_cells f a) = map_cells f (np_rot90 k a)"
  by (simp add: np_rot90_def Let_def map_cells_fliplr map_cells_flipud map_cells_transpose)

lemma map_cells_geometric:
  "wf_array a \<Longrightarrow> geometric_transform d (map_cells f a) = map_cells f (geometric_transform d a)"
  by (simp add: geometric_transform_def map_cells_fliplr map_cells_flipud map_cells_rot90)

text \<open>
  What the code does keep. For every pair and every sequence of draws, the label
  returned is the label under the flips and the quarter turns that the draws
  select, with no photometric step. When the image is square or the number of
  quarter turns is even, the image goes through the same flips and turns, then the
  photometric scaling, and stays aligned pixel by pixel: if every pixel of the
  image was the colour of the class at the same position of the label, then every
  pixel of the returned image is the scaled colour of the class at the same
  position of the returned label.
\<close>

lemma augment_image_square_alignment:
  "snd (augment_image rs img label d) = geometric_transform d label
   \<and> (rot_k d mod 4 = 0 \<or> rot_k d mod 4 = 2 \<or> nrows img = ncols img \<longrightarrow>
        fst (augment_image rs img label d)
          = color_jitter (jitter_factor d) (geometric_transform d img)
        \<and> (wf_array label \<and> img = map_cells colour label \<longrightarrow>
             fst (augment_image rs img label d)
               = color_jitter (jitter_factor d)
                   (map_cells colour (snd (augment_image rs img label d)))))"
proof -
  have l: "snd (augment_image rs img label d) = geometric_transform d label"
    by (simp add: augment_image_parts augment_geometry_label)
  have i: "fst (augment_image rs img label d)
             = color_jitter (jitter_factor d) (geometric_transform d img)"
    if "rot_k d mod 4 = 0 \<or> rot_k d mod 4 = 2 \<or> nrows img = ncols img"
    using that by (simp add: augment_image_parts augment_geometry_image)
  have a: "fst (augment_image rs img label d)
             = color_jitter (jitter_factor d)
                 (map_cells colour (snd (augment_image rs img label d)))"
    if "rot_k d mod 4 = 0 \<or> rot_k d mod 4 = 2 \<or> nrows img = ncols img"
      and "wf_array label" and "img = map_cells colour label"
    using that i l by (simp add: map_cells_geometric)
  show ?thesis
  proof (intro conjI impI)
    show "snd (augment_image rs img label d) = geometric_transform d label"
      by (rule l)
  next
    assume c: "rot_k d mod 4 = 0 \<or> rot_k d mod 4 = 2 \<or> nrows img = ncols img"
    show "fst (augment_image rs img label d)
            = color_jitter (jitter_factor d) (geometric_transform d img)"
      by (rule i [OF c])
  next
    assume c: "rot_k d mod 4 = 0 \<or> rot_k d mod 4 = 2 \<or> nrows img = ncols img"
      and w: "wf_array label \<and> img = map_cells colour label"
    from w have w1: "wf_array label" and w2: "img = map_cells colour label" by simp_all
    show "fst (augment_image rs img label d)
            = color_jitter (jitter_factor d)
                (map_cells colour (snd (augment_image rs img label d)))"
      by (rule a [OF c w1 w2])
  qed
qed

text \<open>
  Claim C3, as amended. augment_image compares no shapes and raises nothing: the
  returned label does not depend on the image, the returned image does not depend
  on the label, and when no rotation is drawn each of the two keeps the shape it
  came with, so that a pair of mismatched shapes is returned as it is.
\<close>

theorem augment_image_no_shape_check:
  "snd (augment_image rs img label d) = snd (augment_image rs img' label d)
   \<and> fst (augment_image rs img label d) = fst (augment_image rs img label' d)
   \<and> (rot_k d = 0 \<longrightarrow>
        nrows (fst (augment_image rs img label d)) = nrows img
        \<and> ncols (fst (augment_image rs img label d)) = ncols img
        \<and> nrows (snd (augment_image rs img label d)) = nrows label
        \<and> ncols (snd (augment_image rs img label d)) = ncols label)"
proof -
  have a: "snd (augment_geometry rs img label d) = snd (augment_geometry rs img' label d)"
    by (simp add: augment_geometry_label)
  have b: "fst (augment_geometry rs img label d) = fst (augment_geometry rs img label' d)"
    by (simp add: augment_geometry_def Let_def)
  have c: "nrows (fst (augment_geometry rs img label d)) = nrows img
        \<and> ncols (fst (augment_geometry rs img label d)) = ncols img
        \<and> nrows (snd (augment_geometry rs img label d)) = nrows label
        \<and> ncols (snd (augment_geometry rs img label d)) = ncols label" if "rot_k d = 0"
    using that by (simp add: augment_geometry_def Let_def)
  from a b c show ?thesis by (simp add: augment_image_parts)
qed

lemmas aug_eval =
  augment_image_def augment_geometry_def pil_rotate_def np_rot90_def
  np_fliplr_def np_flipud_def np_transpose_def np_build_def color_jitter_def jitter_channel_def
  black_resample_def cell_def Let_def

text \<open>
  The claim C3 as stated fails: a 1 by 2 image with a 2 by 2 label is returned,
  unchanged and without error.
\<close>

theorem augment_image_shape_mismatch_counterexample:
  "augment_image black_resample
      \<lparr>nrows = 1, ncols = 2, rows = [[(10, 20, 30), (40, 50, 60)]]\<rparr>
      \<lparr>nrows = 2, ncols = 2, rows = [[3 :: nat, 4], [5, 6]]\<rparr>
      \<lparr>u_hflip = 0, u_vflip = 0, rot_k = 0, jitter_factor = 1\<rparr>
   = (\<lparr>nrows = 1, ncols = 2, rows = [[(10, 20, 30), (40, 50, 60)]]\<rparr>,
      \<lparr>nrows = 2, ncols = 2, rows = [[3, 4], [5, 6]]\<rparr>)"
  by (simp add: aug_eval)

text \<open>
  Claim C4. augment_image is to keep image and label aligned, as its docstring
  says, and it does apply the same flips and the same number of quarter turns to
  both. For a non-square pair and an odd number of quarter turns the alignment is
  lost all the same: img.rotate keeps the frame of the image, np.rot90 swaps the
  dimensions of the label, and a 1 by 2 image with its 1 by 2 label comes back as
  a 1 by 2 image with a 2 by 1 label.
\<close>

theorem augment_image_nonsquare_quarter_turn:
  "nrows (fst (augment_image black_resample
      \<lparr>nrows = 1, ncols = 2, rows = [[(10, 20, 30), (40, 50, 60)]]\<rparr>
      \<lparr>nrows = 1, ncols = 2, rows = [[3 :: nat, 4]]\<rparr>
      \<lparr>u_hflip = 0, u_vflip = 0, rot_k = 1, jitter_factor = 1\<rparr>)) = 1
   \<and> ncols (fst (augment_image black_resample
      \<lparr>nrows = 1, ncols = 2, rows = [[(10, 20, 30), (40, 50, 60)]]\<rparr>
      \<lparr>nrows = 1, ncols = 2, rows = [[3 :: nat, 4]]\<rparr>
      \<lparr>u_hflip = 0, u_vflip = 0, rot_k = 1, jitter_factor = 1\<rparr>)) = 2
   \<and> snd (augment_image black_resample
      \<lparr>nrows = 1, ncols = 2, rows = [[(10, 20, 30), (40, 50, 60)]]\<rparr>
      \<lparr>nrows = 1, ncols = 2, rows = [[3 :: nat, 4]]\<rparr>
      \<lparr>u_hflip = 0, u_vflip = 0, rot_k = 1, jitter_factor = 1\<rparr>)
     = \<lparr>nrows = 2, ncols = 1, rows = [[4], [3]]\<rparr>"
  by (simp add: aug_eval upt_rec)

lemma augment_image_square_alignment_example:
  "nrows (map_cells (\<lambda>c. (c, c, c)) \<lparr>nrows = 2, ncols = 2, rows = [[1 :: nat, 2], [3, 4]]\<rparr>)
     = ncols (map_cells (\<lambda>c. (c, c, c)) \<lparr>nrows = 2, ncols = 2, rows = [[1 :: nat, 2], [3, 4]]\<rparr>)
   \<and> wf_array \<lparr>nrows = 2, ncols = 2, rows = [[1 :: nat, 2], [3, 4]]\<rparr>
   \<and> map_cells (\<lambda>c. (c, c, c)) \<lparr>nrows = 2, ncols = 2, rows = [[1 :: nat, 2], [3, 4]]\<rparr>
       = \<lparr>nrows = 2, ncols = 2, rows = [[(1, 1, 1), (2, 2, 2)], [(3, 3, 3), (4, 4, 4)]]\<rparr>
   \<and> augment_image black_resample
        (map_cells (\<lambda>c. (c, c, c)) \<lparr>nrows = 2, ncols = 2, rows = [[1 :: nat, 2], [3, 4]]\<rparr>)
        \<lparr>nrows = 2, ncols = 2, rows = [[1 :: nat, 2], [3, 4]]\<rparr>
        \<lparr>u_hflip = 0.9, u_vflip = 0.1, rot_k = 1, jitter_factor = 1\<rparr>
       = (\<lparr>nrows = 2, ncols = 2, rows = [[(1, 1, 1), (3, 3, 3)], [(2, 2, 2), (4, 4, 4)]]\<rparr>,
          \<lparr>nrows = 2, ncols = 2, rows = [[1, 3], [2, 4]]\<rparr>)"
proof -
  let ?lbl = "\<lparr>nrows = 2, ncols = 2, rows = [[1 :: nat, 2], [3, 4]]\<rparr>"
  let ?img = "map_cells (\<lambda>c. (c, c, c)) ?lbl"
  let ?d = "\<lparr>u_hflip = 0.9, u_vflip = 0.1, rot_k = 1, jitter_factor = 1\<rparr>"
  have sq: "nrows ?img = ncols ?img" by (simp add: map_cells_def)
  have wf: "wf_array ?lbl" by (simp add: wf_array_def)
  have im: "?img = \<lparr>nrows = 2, ncols = 2, rows = [[(1, 1, 1), (2, 2, 2)], [(3, 3, 3), (4, 4, 4)]]\<rparr>"
    by (simp add: map_cells_def)
  have gl: "geometric_transform ?d ?lbl = \<lparr>nrows = 2, ncols = 2, rows = [[1, 3], [2, 4]]\<rparr>"
    by (simp add: geometric_transform_def np_rot90_def np_fliplr_def np_flipud_def
        np_transpose_def cell_def upt_rec)
  have cj: "color_jitter (jitter_factor ?d)
              (map_cells (\<lambda>c. (c, c, c)) \<lparr>nrows = 2, ncols = 2, rows = [[1 :: nat, 3], [2, 4]]\<rparr>)
      = \<lparr>nrows = 2, ncols = 2, rows = [[(1, 1, 1), (3, 3, 3)], [(2, 2, 2), (4, 4, 4)]]\<rparr>"
    by (simp add: map_cells_def color_jitter_def jitter_channel_def)
  from augment_image_square_alignment [where rs = black_resample and img = ?img and label = ?lbl
      and d = ?d and colour = "\<lambda>c. (c, c, c)"] sq wf
  have "snd (augment_image black_resample ?img ?lbl ?d) = geometric_transform ?d ?lbl"
    and "fst (augment_image black_resample ?img ?lbl ?d)
          = color_jitter (jitter_factor ?d)
              (map_cells (\<lambda>c. (c, c, c)) (snd (augment_image black_resample ?img ?lbl ?d)))"
    by blast+
  with gl cj have "augment_image black_resample ?img ?lbl ?d
      = (\<lparr>nrows = 2, ncols = 2, rows = [[(1, 1, 1), (3, 3, 3)], [(2, 2, 2), (4, 4, 4)]]\<rparr>,
         \<lparr>nrows = 2, ncols = 2, rows = [[1, 3], [2, 4]]\<rparr>)"
    by (simp add: prod_eq_iff)
  with sq wf im show ?thesis by blast
qed

theorem augment_image_no_shape_check_witness:
  "rot_k \<lparr>u_hflip = 0.9, u_vflip = 0.9, rot_k = 0, jitter_factor = 1\<rparr> = 0
   \<and> nrows (fst (augment_image black_resample
        \<lparr>nrows = 1, ncols = 2, rows = [[(10, 20, 30), (40, 50, 60)]]\<rparr>
        \<lparr>nrows = 2, ncols = 1, rows = [[3 :: nat], [5]]\<rparr>
        \<lparr>u_hflip = 0.9, u_vflip = 0.9, rot_k = 0, jitter_factor = 1\<rparr>)) = 1
   \<and> nrows (snd (augment_image black_resample
        \<lparr>nrows = 1, ncols = 2, rows = [[(10, 20, 30), (40, 50, 60)]]\<rparr>
        \<lparr>nrows = 2, ncols = 1, rows = [[3 :: nat], [5]]\<rparr>
        \<lparr>u_hflip = 0.9, u_vflip = 0.9, rot_k = 0, jitter_factor = 1\<rparr>)) = 2"
proof -
  let ?img = "\<lparr>nrows = 1, ncols = 2, rows = [[(10, 20, 30), (40 :: nat, 50 :: nat, 60 :: nat)]]\<rparr>"
  let ?lbl = "\<lparr>nrows = 2, ncols = 1, rows = [[3 :: nat], [5]]\<rparr>"
  let ?d = "\<lparr>u_hflip = 0.9, u_vflip = 0.9, rot_k = 0, jitter_factor = 1\<rparr>"
  have k: "rot_k ?d = 0" by simp
  from augment_image_no_shape_check [where rs = black_resample and img = ?img and label = ?lbl
      and d = ?d and img' = ?img and label' = ?lbl] k
  have "nrows (fst (augment_image black_resample ?img ?lbl ?d)) = nrows ?img
      \<and> nrows (snd (augment_image black_resample ?img ?lbl ?d)) = nrows ?lbl"
    by blast
  with k show ?thesis by simp
qed

end
